theory Spec2Isabelle
  imports Main
begin

section \<open>Data model\<close>

text \<open>
  A ticket as the list component and the query service see it. The source's field
  \<^verbatim>\<open>id\<close> is called \<open>ticket_id\<close> here (\<open>id\<close> is the identity function of HOL).
  Nullable columns (\<^verbatim>\<open>queueId\<close>, \<^verbatim>\<open>userId\<close>) are options; timestamps are
  epoch milliseconds. The contact and the messages are the joined rows the query
  service searches in.
\<close>

record ticket =
  ticket_id :: int
  status :: string
  unreadMessages :: int
  queueId :: "int option"
  userId :: "int option"
  createdAt :: int
  updatedAt :: int
  contact_name :: string
  contact_number :: string
  message_bodies :: "string list"

text \<open>
  Thrown values. \<open>JsError name message\<close> is a JavaScript \<^verbatim>\<open>Error\<close> (or a subclass, or
  a rejection of a library call) with its \<^verbatim>\<open>name\<close> and \<^verbatim>\<open>message\<close>;
  \<open>AppError message statusCode\<close> is the application's own error class, which carries
  no \<^verbatim>\<open>name\<close>. Messages are written in ASCII.
\<close>

datatype error = JsError string string | AppError string int

definition error_name :: "error \<Rightarrow> string option" where
  "error_name e = (case e of JsError n m \<Rightarrow> Some n | AppError m c \<Rightarrow> None)"

section \<open>The list reducer (frontend/src/components/TicketsList/index.js)\<close>

text \<open>The actions the reducer is dispatched with; \<open>OTHER\<close> is any other action type
  (the \<^verbatim>\<open>default\<close> branch of the switch).\<close>

datatype action = LOAD_TICKETS "ticket list" | RESET | OTHER string

text \<open>\<^verbatim>\<open>Array.prototype.findIndex\<close>: the first index whose element satisfies the
  predicate; the source's \<^verbatim>\<open>-1\<close> is \<open>None\<close>.\<close>

fun findIndex :: "('a \<Rightarrow> bool) \<Rightarrow> 'a list \<Rightarrow> nat option" where
  "findIndex P [] = None"
| "findIndex P (x # xs) = (if P x then Some 0 else map_option Suc (findIndex P xs))"

text \<open>\<^verbatim>\<open>xs.splice(i, 1)\<close>: the removed elements and the array that remains.\<close>

definition splice1 :: "nat \<Rightarrow> 'a list \<Rightarrow> 'a list \<times> 'a list" where
  "splice1 i xs = (take 1 (drop i xs), take i xs @ drop (Suc i) xs)"

text \<open>
  The body of the \<^verbatim>\<open>forEach\<close> of \<^verbatim>\<open>LOAD_TICKETS\<close>, on the working copy
  \<^verbatim>\<open>updatedState\<close>: a ticket whose id is found replaces the entry at that index and,
  when it has unread messages, is spliced out and unshifted to the front; a ticket
  whose id is not found is pushed at the end. The splice removes one element at an
  index \<^verbatim>\<open>findIndex\<close> returned, so it is never empty; the \<open>[]\<close> case is unreachable.
\<close>

definition merge_ticket :: "ticket list \<Rightarrow> ticket \<Rightarrow> ticket list" where
  "merge_ticket updatedState t =
     (case findIndex (\<lambda>x. ticket_id x = ticket_id t) updatedState of
        None \<Rightarrow> updatedState @ [t]
      | Some index \<Rightarrow>
          (let replaced = updatedState[index := t] in
           if 0 < unreadMessages t
           then (case splice1 index replaced of
                   (removed # _, rest) \<Rightarrow> removed # rest
                 | ([], rest) \<Rightarrow> rest)
           else replaced))"

fun reducer :: "ticket list \<Rightarrow> action \<Rightarrow> ticket list" where
  "reducer state (LOAD_TICKETS newTickets) = foldl merge_ticket state newTickets"
| "reducer state RESET = []"
| "reducer state (OTHER ty) = state"

text \<open>A sequence of dispatches, applied in order.\<close>

definition dispatch_all :: "ticket list \<Rightarrow> action list \<Rightarrow> ticket list" where
  "dispatch_all state acts = foldl reducer state acts"

text \<open>The ids of a list state, in list order.\<close>

definition ids :: "ticket list \<Rightarrow> int list" where
  "ids state = map ticket_id state"


subsection \<open>The socket handler and the filter effect\<close>

text \<open>
  What the socket effect closes over: the logged-in user's id (\<^verbatim>\<open>user?.id\<close>,
  \<open>None\<close> when there is no user), the \<^verbatim>\<open>showAll\<close> prop and the selected queues.
\<close>

record socket_ctx =
  user_id :: "int option"
  showAll :: bool
  selectedQueueIds :: "int list"

text \<open>The payload of a \<^verbatim>\<open>"ticket"\<close> socket event.\<close>

record ticket_event =
  ev_action :: string
  ev_ticket :: "ticket option"

text \<open>JavaScript's \<^verbatim>\<open>!x\<close> on a nullable numeric id: true for null/undefined and
  for \<open>0\<close>. In \<open>shouldUpdateTicket\<close> the strict comparison of an absent owner with an
  absent user only matters where the first disjunct is already true.\<close>

definition falsy_id :: "int option \<Rightarrow> bool" where
  "falsy_id x = (case x of None \<Rightarrow> True | Some n \<Rightarrow> n = 0)"

definition shouldUpdateTicket :: "socket_ctx \<Rightarrow> ticket \<Rightarrow> bool" where
  "shouldUpdateTicket ctx t =
     ((falsy_id (userId t) \<or> userId t = user_id ctx \<or> showAll ctx) \<and>
      (falsy_id (queueId t) \<or>
        (case queueId t of None \<Rightarrow> False | Some q \<Rightarrow> q \<in> set (selectedQueueIds ctx))))"

text \<open>
  The handler of \<^verbatim>\<open>socket.on("ticket", ...)\<close>, as a function of the list state
  the dispatches act on. Reading \<^verbatim>\<open>ticket.userId\<close> of an event that carries no
  ticket throws a TypeError; this only happens for \<^verbatim>\<open>"update"\<close>, since
  \<^verbatim>\<open>&&\<close> does not evaluate its right operand for any other action.
\<close>

definition socket_on_ticket ::
  "socket_ctx \<Rightarrow> ticket_event \<Rightarrow> ticket list \<Rightarrow> error + ticket list" where
  "socket_on_ticket ctx data state =
     (if ev_action data = ''update''
      then (case ev_ticket data of
              None \<Rightarrow> Inl (JsError ''TypeError'' ''Cannot read properties of undefined'')
            | Some t \<Rightarrow>
                Inr (if shouldUpdateTicket ctx t then reducer state (LOAD_TICKETS [t])
                     else state))
      else if ev_action data = ''delete'' then Inr (reducer state RESET)
      else Inr state)"

text \<open>The component state the filter effect writes: the list and the page number.\<close>

record list_component =
  ticketsList :: "ticket list"
  pageNumber :: int

text \<open>The effect that runs when \<^verbatim>\<open>status\<close>, \<^verbatim>\<open>searchParam\<close>, \<^verbatim>\<open>showAll\<close>,
  \<^verbatim>\<open>selectedQueueIds\<close> or \<^verbatim>\<open>tags\<close> change: dispatch \<^verbatim>\<open>RESET\<close>, page 1.\<close>

definition on_filter_change :: "list_component \<Rightarrow> list_component" where
  "on_filter_change c = c\<lparr>ticketsList := reducer (ticketsList c) RESET, pageNumber := 1\<rparr>"

text \<open>Sample tickets for the concrete evaluations below: an id and an unread count,
  no owner, no queue.\<close>

definition sample_ticket :: "int \<Rightarrow> int \<Rightarrow> ticket" where
  "sample_ticket i n =
     \<lparr>ticket_id = i, status = ''open'', unreadMessages = n, queueId = None, userId = None,
      createdAt = 0, updatedAt = 0, contact_name = ''c'', contact_number = ''1'',
      message_bodies = []\<rparr>"

section \<open>The query service (ListTicketsService)\<close>

text \<open>
  The request. \<^verbatim>\<open>undefined\<close> is \<open>None\<close>. \<open>req_pageNumber\<close> is the number the
  string \<^verbatim>\<open>pageNumber\<close> denotes (the source converts it with unary plus); strings
  that denote no integer are outside the model. Ids are numbers, also where the
  source carries them as numeric strings. A \<^verbatim>\<open>tags\<close> that is not an array behaves
  as the empty list.
\<close>

record request =
  req_searchParam :: "string option"
  req_pageNumber :: "int option"
  req_status :: "string option"
  req_date :: "string option"
  req_updatedAt :: "string option"
  req_showAll :: "string option"
  req_userId :: int
  req_withUnreadMessages :: "string option"
  req_queueIds :: "int list"
  req_tags :: "int list"

record response =
  tickets :: "ticket list"
  count :: int
  hasMore :: bool

text \<open>
  The \<^verbatim>\<open>where\<close> object handed to Sequelize, one field per key the source can set;
  \<open>None\<close> is an absent key. Spreading the object and naming a key again
  (\<^verbatim>\<open>{...whereCondition, status}\<close>) is a record update: the key is overwritten.
  The key \<^verbatim>\<open>[Op.or]\<close> holds either the ownership alternative or the three search
  alternatives; \<open>w_queueId = Some qs\<close> is \<^verbatim>\<open>{[Op.or]: [qs, null]}\<close>.
\<close>

datatype or_clause = OwnerOrPending int | SearchLike string

record where_condition =
  w_or :: "or_clause option"
  w_queueId :: "int list option"
  w_status :: "string option"
  w_createdAt :: "(int \<times> int) option"
  w_updatedAt :: "(int \<times> int) option"
  w_unreadMessages_gt :: "int option"
  w_id_in :: "int list option"

text \<open>The query of \<^verbatim>\<open>Ticket.findAndCountAll\<close>: the condition, the pattern of the
  optional \<^verbatim>\<open>messages\<close> include pushed for a search, limit and offset. The order
  (\<^verbatim>\<open>updatedAt DESC\<close>) and the four fixed includes are the same in every query.\<close>

record query =
  q_where :: where_condition
  q_include_messages :: "string option"
  q_limit :: int
  q_offset :: int

record queue =
  queue_id :: int
  queue_name :: string

record user =
  user_ident :: int
  queues :: "queue list"
  tokenVersion :: int

record ticket_tag =
  tt_ticketId :: int
  tt_tagId :: int

record refresh_payload =
  payload_id :: int
  payload_tokenVersion :: int

text \<open>
  The collaborators the two services call, taken as parameters: the user lookup, the
  two data-layer calls, the string and date helpers, and the token helpers. Each call
  that can reject or throw returns a sum.
\<close>

record backend =
  ShowUserService :: "int \<Rightarrow> error + user"
  TicketTag_findAll :: "int list \<Rightarrow> error + ticket_tag list"
  Ticket_findAndCountAll :: "query \<Rightarrow> error + (int \<times> ticket list)"
  sanitize :: "string \<Rightarrow> string"
  startOfDay :: "string \<Rightarrow> int"
  endOfDay :: "string \<Rightarrow> int"
  verify :: "string \<Rightarrow> string \<Rightarrow> error + refresh_payload"
  refreshSecret :: string
  createAccessToken :: "user \<Rightarrow> error + string"
  createRefreshToken :: "user \<Rightarrow> error + string"

text \<open>JavaScript truthiness of an optional string: present and not empty.\<close>

definition truthy :: "string option \<Rightarrow> bool" where
  "truthy s = (case s of None \<Rightarrow> False | Some v \<Rightarrow> v \<noteq> [])"

text \<open>lodash's \<^verbatim>\<open>intersection\<close> applied to a single array: its distinct values, in
  order of first occurrence.\<close>

fun intersection1 :: "'a list \<Rightarrow> 'a list" where
  "intersection1 [] = []"
| "intersection1 (x # xs) = x # intersection1 (filter (\<lambda>y. y \<noteq> x) xs)"

definition empty_where :: where_condition where
  "empty_where = \<lparr>w_or = None, w_queueId = None, w_status = None, w_createdAt = None,
     w_updatedAt = None, w_unreadMessages_gt = None, w_id_in = None\<rparr>"

text \<open>
  Lines 80 to 165 of the service: the condition composed, without any await, from
  ownership, queues, \<^verbatim>\<open>showAll\<close>, \<^verbatim>\<open>status\<close>, the search and the two dates.
  \<^verbatim>\<open>searchParam\<close> defaults to the empty string, which is falsy.
\<close>

definition compose_where :: "backend \<Rightarrow> request \<Rightarrow> where_condition" where
  "compose_where env r =
     (let w0 = empty_where\<lparr>w_or := Some (OwnerOrPending (req_userId r)),
                           w_queueId := Some (req_queueIds r)\<rparr>;
          w1 = (if req_showAll r = Some ''true''
                then empty_where\<lparr>w_queueId := Some (req_queueIds r)\<rparr> else w0);
          w2 = (if truthy (req_status r) then w1\<lparr>w_status := req_status r\<rparr> else w1);
          w3 = (if truthy (req_searchParam r)
                then w2\<lparr>w_or := Some (SearchLike (sanitize env (the (req_searchParam r))))\<rparr>
                else w2);
          w4 = (if truthy (req_date r)
                then w3\<lparr>w_createdAt :=
                       Some (startOfDay env (the (req_date r)), endOfDay env (the (req_date r)))\<rparr>
                else w3);
          w5 = (if truthy (req_updatedAt r)
                then w4\<lparr>w_updatedAt :=
                       Some (startOfDay env (the (req_updatedAt r)),
                             endOfDay env (the (req_updatedAt r)))\<rparr>
                else w4)
      in w5)"

definition include_messages :: "backend \<Rightarrow> request \<Rightarrow> string option" where
  "include_messages env r =
     (if truthy (req_searchParam r) then Some (sanitize env (the (req_searchParam r)))
      else None)"

text \<open>Lines 167 to 176: with \<^verbatim>\<open>withUnreadMessages === "true"\<close> the user is looked up
  and the condition is assigned anew, not spread.\<close>

definition unread_where ::
  "backend \<Rightarrow> request \<Rightarrow> where_condition \<Rightarrow> error + where_condition" where
  "unread_where env r w =
     (if req_withUnreadMessages r = Some ''true''
      then (case ShowUserService env (req_userId r) of
              Inl e \<Rightarrow> Inl e
            | Inr u \<Rightarrow>
                (let userQueueIds = map queue_id (queues u) in
                 Inr (empty_where\<lparr>w_or := Some (OwnerOrPending (req_userId r)),
                                  w_queueId := Some userQueueIds,
                                  w_unreadMessages_gt := Some 0\<rparr>)))
      else Inr w)"

text \<open>Lines 178 to 190: the ticket ids of the \<^verbatim>\<open>TicketTag\<close> rows found for the
  tags, made distinct, become the \<^verbatim>\<open>id\<close> key of the condition.\<close>

definition tags_where ::
  "backend \<Rightarrow> request \<Rightarrow> where_condition \<Rightarrow> error + where_condition" where
  "tags_where env r w =
     (if 0 < length (req_tags r)
      then (case TicketTag_findAll env (req_tags r) of
              Inl e \<Rightarrow> Inl e
            | Inr ticketTags \<Rightarrow>
                (let ticketsIntersection = intersection1 (map tt_ticketId ticketTags) in
                 Inr (w\<lparr>w_id_in := Some ticketsIntersection\<rparr>)))
      else Inr w)"

text \<open>The page number after the default \<^verbatim>\<open>"1"\<close> and the conversion to a number.\<close>

definition page_of :: "request \<Rightarrow> int" where
  "page_of r = (case req_pageNumber r of None \<Rightarrow> 1 | Some n \<Rightarrow> n)"

text \<open>Everything up to the call of \<^verbatim>\<open>findAndCountAll\<close>: the query it is called with.\<close>

definition build_query :: "backend \<Rightarrow> request \<Rightarrow> error + query" where
  "build_query env r =
     (case unread_where env r (compose_where env r) of
        Inl e \<Rightarrow> Inl e
      | Inr w \<Rightarrow>
          (case tags_where env r w of
             Inl e \<Rightarrow> Inl e
           | Inr w' \<Rightarrow>
               (let limit = 40; offset = limit * (page_of r - 1) in
                Inr \<lparr>q_where = w', q_include_messages = include_messages env r,
                     q_limit = limit, q_offset = offset\<rparr>)))"

text \<open>
  The internal function. Its third argument is what \<^verbatim>\<open>signal?.aborted\<close> reads when
  the function is entered (\<open>None\<close>: no signal was passed); the signal is read nowhere
  else and is not handed to the data layer.
\<close>

definition ListTicketsServiceInternal ::
  "backend \<Rightarrow> request \<Rightarrow> bool option \<Rightarrow> error + response" where
  "ListTicketsServiceInternal env r signal_aborted =
     (if signal_aborted = Some True then Inl (JsError ''Error'' ''Requisicao cancelada'')
      else (case build_query env r of
              Inl e \<Rightarrow> Inl e
            | Inr q \<Rightarrow>
                (case Ticket_findAndCountAll env q of
                   Inl e \<Rightarrow> Inl e
                 | Inr (cnt, rows) \<Rightarrow>
                     Inr \<lparr>tickets = rows, count = cnt,
                          hasMore = (cnt > q_offset q + int (length rows))\<rparr>)))"

subsection \<open>The abort controller\<close>

text \<open>
  The module's global \<^verbatim>\<open>currentAbortController\<close> and the controllers it has pointed
  to: a controller is an address, \<open>aborted\<close> lists the controllers whose signal is
  aborted, \<open>next_controller\<close> is the next fresh address.
\<close>

record abort_state =
  currentAbortController :: "nat option"
  aborted :: "nat list"
  next_controller :: nat

definition initial_abort_state :: abort_state where
  "initial_abort_state = \<lparr>currentAbortController = None, aborted = [], next_controller = 0\<rparr>"

text \<open>Lines 38 to 43: abort the controller the global points to, if any, then point
  the global to a new controller. Returns the new controller.\<close>

definition service_enter :: "abort_state \<Rightarrow> abort_state \<times> nat" where
  "service_enter g =
     (let g1 = (case currentAbortController g of
                  None \<Rightarrow> g
                | Some c \<Rightarrow> g\<lparr>aborted := c # aborted g\<rparr>);
          c' = next_controller g1
      in (g1\<lparr>currentAbortController := Some c', next_controller := Suc c'\<rparr>, c'))"

text \<open>Lines 47 to 56: the outcome of the awaited internal call goes through the
  \<^verbatim>\<open>catch\<close> (an error named \<^verbatim>\<open>AbortError\<close> becomes the empty page, any other is
  thrown again) and the \<^verbatim>\<open>finally\<close> (the global is set to null).\<close>

definition empty_page :: response where
  "empty_page = \<lparr>tickets = [], count = 0, hasMore = False\<rparr>"

definition service_leave ::
  "abort_state \<Rightarrow> error + response \<Rightarrow> abort_state \<times> (error + response)" where
  "service_leave g outcome =
     (g\<lparr>currentAbortController := None\<rparr>,
      (case outcome of
         Inr result \<Rightarrow> Inr result
       | Inl e \<Rightarrow> if error_name e = Some ''AbortError'' then Inr empty_page else Inl e))"

text \<open>A call of the service that no other call interleaves with.\<close>

definition ListTicketsService ::
  "backend \<Rightarrow> request \<Rightarrow> abort_state \<Rightarrow> abort_state \<times> (error + response)" where
  "ListTicketsService env r g =
     (let (g1, c) = service_enter g;
          signal_aborted = Some (c \<in> set (aborted g1))
      in service_leave g1 (ListTicketsServiceInternal env r signal_aborted))"

text \<open>
  Two overlapping calls, in the order the event loop runs them: call A enters and its
  internal function reads the signal and then awaits the data layer; call B enters
  meanwhile (aborting A's controller); A's await resolves and A leaves. The result is
  whether A's signal is aborted when A resumes, and what A returns to its caller.
\<close>

definition superseded_fetch ::
  "backend \<Rightarrow> request \<Rightarrow> abort_state \<Rightarrow> bool \<times> (error + response)" where
  "superseded_fetch env rA g =
     (let (g1, cA) = service_enter g;
          signalA_at_entry = Some (cA \<in> set (aborted g1));
          (g2, cB) = service_enter g1;
          (g3, outA) = service_leave g2 (ListTicketsServiceInternal env rA signalA_at_entry)
      in (cA \<in> set (aborted g2), outA))"

subsection \<open>A table-backed data layer\<close>

text \<open>
  How the data layer reads a condition against a ticket row: the conjunction of its
  keys. How the database evaluates the three search alternatives is a parameter.
\<close>

definition matches :: "(string \<Rightarrow> ticket \<Rightarrow> bool) \<Rightarrow> where_condition \<Rightarrow> ticket \<Rightarrow> bool" where
  "matches search w t =
     ((case w_or w of
         None \<Rightarrow> True
       | Some (OwnerOrPending u) \<Rightarrow> userId t = Some u \<or> status t = ''pending''
       | Some (SearchLike p) \<Rightarrow> search p t) \<and>
      (case w_queueId w of
         None \<Rightarrow> True
       | Some qs \<Rightarrow> (case queueId t of None \<Rightarrow> True | Some q \<Rightarrow> q \<in> set qs)) \<and>
      (case w_status w of None \<Rightarrow> True | Some s \<Rightarrow> status t = s) \<and>
      (case w_createdAt w of None \<Rightarrow> True | Some (lo, hi) \<Rightarrow> lo \<le> createdAt t \<and> createdAt t \<le> hi) \<and>
      (case w_updatedAt w of None \<Rightarrow> True | Some (lo, hi) \<Rightarrow> lo \<le> updatedAt t \<and> updatedAt t \<le> hi) \<and>
      (case w_unreadMessages_gt w of None \<Rightarrow> True | Some n \<Rightarrow> n < unreadMessages t) \<and>
      (case w_id_in w of None \<Rightarrow> True | Some is \<Rightarrow> ticket_id t \<in> set is))"

record database =
  db_tickets :: "ticket list"
  db_ticket_tags :: "ticket_tag list"
  db_search :: "string \<Rightarrow> ticket \<Rightarrow> bool"

text \<open>
  The data-layer calls answered from tables: the tag rows whose tag is among the given
  ones; the matching tickets, newest update first, counted, then cut to the page. A
  negative limit or offset is rejected by the database.
\<close>

definition db_findAll :: "database \<Rightarrow> int list \<Rightarrow> error + ticket_tag list" where
  "db_findAll db tagIds = Inr (filter (\<lambda>row. tt_tagId row \<in> set tagIds) (db_ticket_tags db))"

definition db_findAndCountAll :: "database \<Rightarrow> query \<Rightarrow> error + (int \<times> ticket list)" where
  "db_findAndCountAll db q =
     (if q_limit q < 0 \<or> q_offset q < 0
      then Inl (JsError ''SequelizeDatabaseError'' ''negative LIMIT or OFFSET'')
      else (let found = sort_key (\<lambda>t. - updatedAt t)
                          (filter (matches (db_search db) (q_where q)) (db_tickets db))
            in Inr (int (length found),
                    take (nat (q_limit q)) (drop (nat (q_offset q)) found))))"

definition db_backend :: "database \<Rightarrow> backend \<Rightarrow> backend" where
  "db_backend db env =
     env\<lparr>TicketTag_findAll := db_findAll db, Ticket_findAndCountAll := db_findAndCountAll db\<rparr>"

section \<open>The refresh-token service (RefreshTokenService.ts)\<close>

text \<open>The Express response, as far as the service touches it: the names
  \<^verbatim>\<open>clearCookie\<close> was called with, latest first.\<close>

record res =
  cleared_cookies :: "string list"

definition clearCookie :: "string \<Rightarrow> res \<Rightarrow> res" where
  "clearCookie name r = r\<lparr>cleared_cookies := name # cleared_cookies r\<rparr>"

record refresh_response =
  rr_user :: user
  newToken :: string
  refreshToken :: string

text \<open>The body of the \<^verbatim>\<open>try\<close> block: the response object as it leaves the block and
  either what was thrown inside it or the value returned.\<close>

definition refresh_try ::
  "backend \<Rightarrow> res \<Rightarrow> string \<Rightarrow> res \<times> (error + refresh_response)" where
  "refresh_try env r token =
     (case verify env token (refreshSecret env) of
        Inl e \<Rightarrow> (r, Inl e)
      | Inr decoded \<Rightarrow>
          (case ShowUserService env (payload_id decoded) of
             Inl e \<Rightarrow> (r, Inl e)
           | Inr u \<Rightarrow>
               if tokenVersion u \<noteq> payload_tokenVersion decoded
               then (clearCookie ''jrt'' r,
                     Inl (AppError ''Sessao expirada, autenticacao necessaria'' 401))
               else (case createAccessToken env u of
                       Inl e \<Rightarrow> (r, Inl e)
                     | Inr nt \<Rightarrow>
                         (case createRefreshToken env u of
                            Inl e \<Rightarrow> (r, Inl e)
                          | Inr rt \<Rightarrow>
                              (r, Inr \<lparr>rr_user = u, newToken = nt, refreshToken = rt\<rparr>)))))"

definition RefreshTokenService ::
  "backend \<Rightarrow> res \<Rightarrow> string option \<Rightarrow> res \<times> (error + refresh_response)" where
  "RefreshTokenService env r token =
     (if \<not> truthy token
      then (clearCookie ''jrt'' r, Inl (AppError ''Refresh token nao fornecido'' 401))
      else (case refresh_try env r (the token) of
              (r1, Inr result) \<Rightarrow> (r1, Inr result)
            | (r1, Inl err) \<Rightarrow>
                (clearCookie ''jrt'' r1, Inl (AppError ''Sessao expirada ou token invalido'' 401))))"

section \<open>Sample collaborators for the concrete evaluations\<close>

definition sample_user :: user where
  "sample_user = \<lparr>user_ident = 1, queues = [\<lparr>queue_id = 4, queue_name = ''support''\<rparr>],
     tokenVersion = 3\<rparr>"

definition sample_backend :: backend where
  "sample_backend =
     \<lparr>ShowUserService =
        (\<lambda>i. if i = 1 then Inr sample_user else Inl (AppError ''ERR_NO_USER_FOUND'' 404)),
      TicketTag_findAll = (\<lambda>tagIds. Inr []),
      Ticket_findAndCountAll = (\<lambda>q. Inr (0, [])),
      sanitize = (\<lambda>s. s),
      startOfDay = (\<lambda>d. 0),
      endOfDay = (\<lambda>d. 86399999),
      verify =
        (\<lambda>tok secret. if tok = ''good'' \<and> secret = ''s3cret''
           then Inr \<lparr>payload_id = 1, payload_tokenVersion = 3\<rparr>
           else Inl (JsError ''JsonWebTokenError'' ''invalid signature'')),
      refreshSecret = ''s3cret'',
      createAccessToken = (\<lambda>u. Inr ''access''),
      createRefreshToken = (\<lambda>u. Inr ''refresh'')\<rparr>"

definition sample_database :: database where
  "sample_database =
     \<lparr>db_tickets = [sample_ticket 5 0, sample_ticket 7 2, sample_ticket 9 0],
      db_ticket_tags =
        [\<lparr>tt_ticketId = 5, tt_tagId = 1\<rparr>, \<lparr>tt_ticketId = 7, tt_tagId = 2\<rparr>,
         \<lparr>tt_ticketId = 7, tt_tagId = 3\<rparr>, \<lparr>tt_ticketId = 9, tt_tagId = 3\<rparr>],
      db_search = (\<lambda>p t. False)\<rparr>"


definition sample_request :: request where
  "sample_request =
     \<lparr>req_searchParam = None, req_pageNumber = Some 1, req_status = None, req_date = None,
      req_updatedAt = None, req_showAll = Some ''true'', req_userId = 1,
      req_withUnreadMessages = None, req_queueIds = [], req_tags = []\<rparr>"

section \<open>Properties of the reducer\<close>

lemma findIndex_None: "findIndex P xs = None \<longleftrightarrow> (\<forall>x \<in> set xs. \<not> P x)"
  by (induction xs) auto

lemma findIndex_Some:
  "findIndex P xs = Some i \<Longrightarrow>
     \<exists>as x bs. xs = as @ x # bs \<and> length as = i \<and> P x \<and> (\<forall>a \<in> set as. \<not> P a)"
proof (induction xs arbitrary: i)
  case Nil
  then show ?case by simp
next
  case (Cons y ys)
  show ?case
  proof (cases "P y")
    case True
    with Cons.prems have "i = 0" by simp
    with True show ?thesis by (intro exI[of _ "[]"]) auto
  next
    case False
    with Cons.prems obtain j where j: "findIndex P ys = Some j" "i = Suc j"
      by auto
    from Cons.IH[OF j(1)] obtain as x bs where
      "ys = as @ x # bs" "length as = j" "P x" "\<forall>a \<in> set as. \<not> P a"
      by blast
    with False j(2) show ?thesis
      by (intro exI[of _ "y # as"] exI[of _ x] exI[of _ bs]) auto
  qed
qed

text \<open>The two ways a merge step can go, in terms of the list around the entry found.\<close>

lemma merge_ticket_new:
  "\<forall>x \<in> set st. ticket_id x \<noteq> ticket_id t \<Longrightarrow> merge_ticket st t = st @ [t]"
  using findIndex_None[of "\<lambda>x. ticket_id x = ticket_id t" st]
  by (simp add: merge_ticket_def)

lemma merge_ticket_found:
  assumes "st = as @ x # bs" "ticket_id x = ticket_id t"
    and "\<forall>a \<in> set as. ticket_id a \<noteq> ticket_id t"
  shows "merge_ticket st t = (if 0 < unreadMessages t then t # as @ bs else as @ t # bs)"
proof -
  have "findIndex (\<lambda>y. ticket_id y = ticket_id t) (as @ x # bs) = Some (length as)"
    using assms(2,3) by (induction as) auto
  then show ?thesis
    by (simp add: merge_ticket_def assms(1) splice1_def Let_def)
qed

lemma merge_ticket_cases:
  obtains (new) "\<forall>x \<in> set st. ticket_id x \<noteq> ticket_id t" "merge_ticket st t = st @ [t]"
  | (found) as x bs where "st = as @ x # bs" "ticket_id x = ticket_id t"
      "\<forall>a \<in> set as. ticket_id a \<noteq> ticket_id t"
      "merge_ticket st t = (if 0 < unreadMessages t then t # as @ bs else as @ t # bs)"
proof (cases "findIndex (\<lambda>x. ticket_id x = ticket_id t) st")
  case None
  then have "\<forall>x \<in> set st. ticket_id x \<noteq> ticket_id t"
    by (simp add: findIndex_None)
  then show ?thesis using new merge_ticket_new by blast
next
  case (Some i)
  from findIndex_Some[OF Some] obtain as x bs where
    d: "st = as @ x # bs" "ticket_id x = ticket_id t" "\<forall>a \<in> set as. ticket_id a \<noteq> ticket_id t"
    by blast
  show ?thesis using found[OF d merge_ticket_found[OF d]] .
qed

lemma merge_ticket_distinct:
  assumes "distinct (ids st)"
  shows "distinct (ids (merge_ticket st t))"
proof (cases st t rule: merge_ticket_cases)
  case new
  with assms show ?thesis by (auto simp: ids_def)
next
  case (found as x bs)
  with assms show ?thesis by (auto simp: ids_def)
qed

lemma foldl_merge_distinct:
  "distinct (ids st) \<Longrightarrow> distinct (ids (foldl merge_ticket st ts))"
  by (induction ts arbitrary: st) (simp_all add: merge_ticket_distinct)

lemma reducer_distinct: "distinct (ids st) \<Longrightarrow> distinct (ids (reducer st a))"
  by (cases a) (simp_all add: foldl_merge_distinct, simp add: ids_def)

text \<open>
  C2 (uniqueness). From a list state whose ticket ids are pairwise distinct, any
  sequence of dispatched actions (\<^verbatim>\<open>LOAD_TICKETS\<close> batches, \<^verbatim>\<open>RESET\<close>, anything else)
  leaves a list state whose ticket ids are pairwise distinct. The batches themselves
  may repeat ids.
\<close>

theorem reducer_ids_unique:
  "distinct (ids state) \<Longrightarrow> distinct (ids (dispatch_all state acts))"
  unfolding dispatch_all_def
  by (induction acts arbitrary: state) (simp_all add: reducer_distinct)

theorem reducer_ids_unique_witness:
  "distinct (ids [sample_ticket 1 0, sample_ticket 2 0]) \<and>
   distinct (ids (dispatch_all [sample_ticket 1 0, sample_ticket 2 0]
     [LOAD_TICKETS [sample_ticket 2 5, sample_ticket 3 0, sample_ticket 3 1], OTHER ''x'']))"
proof -
  have d: "distinct (ids [sample_ticket 1 0, sample_ticket 2 0])"
    by (simp add: ids_def sample_ticket_def)
  from reducer_ids_unique[OF d] d show ?thesis by blast
qed

text \<open>
  C9 (idempotence of replace). Merging the batch \<open>[t]\<close> a second time gives the list of
  merging it once, up to the position of \<open>t\<close> itself: both lists contain \<open>t\<close> and are
  equal once \<open>t\<close> is taken out. They are equal as lists whenever \<open>t\<close> has no unread
  messages or its id was already in the list; the one position change is that of an
  unread ticket whose id was new, which the first merge appends and the second moves
  to the front.
\<close>

theorem merge_twice:
  fixes s :: "ticket list" and t :: ticket
  defines "once \<equiv> reducer s (LOAD_TICKETS [t])"
  defines "twice \<equiv> reducer (reducer s (LOAD_TICKETS [t])) (LOAD_TICKETS [t])"
  shows "t \<in> set once \<and> t \<in> set twice \<and> remove1 t twice = remove1 t once \<and>
         (\<not> 0 < unreadMessages t \<or> ticket_id t \<in> set (ids s) \<longrightarrow> twice = once) \<and>
         (0 < unreadMessages t \<and> ticket_id t \<notin> set (ids s) \<longrightarrow>
            once = s @ [t] \<and> twice = t # s)"
proof (cases s t rule: merge_ticket_cases)
  case new
  then have notin: "t \<notin> set s" "ticket_id t \<notin> set (ids s)"
    by (auto simp: ids_def)
  have "merge_ticket (s @ [t]) t = (if 0 < unreadMessages t then t # s @ [] else s @ t # [])"
    using new(1) by (intro merge_ticket_found) auto
  with new(2) notin show ?thesis
    by (simp add: once_def twice_def remove1_append)
next
  case (found as x bs)
  have inn: "ticket_id t \<in> set (ids s)"
    using found(1,2) by (auto simp: ids_def)
  show ?thesis
  proof (cases "0 < unreadMessages t")
    case True
    have "merge_ticket (t # as @ bs) t = t # [] @ as @ bs"
      using merge_ticket_found[of "t # as @ bs" "[]" t "as @ bs" t] True by simp
    with found(4) True inn show ?thesis
      by (simp add: once_def twice_def)
  next
    case False
    have "merge_ticket (as @ t # bs) t = as @ t # bs"
      using merge_ticket_found[of "as @ t # bs" as t bs t] found(3) False by simp
    with found(4) False inn show ?thesis
      by (simp add: once_def twice_def)
  qed
qed

theorem merge_twice_witness:
  "reducer [sample_ticket 1 0] (LOAD_TICKETS [sample_ticket 2 3])
     = [sample_ticket 1 0, sample_ticket 2 3] \<and>
   reducer (reducer [sample_ticket 1 0] (LOAD_TICKETS [sample_ticket 2 3]))
       (LOAD_TICKETS [sample_ticket 2 3])
     = [sample_ticket 2 3, sample_ticket 1 0] \<and>
   reducer (reducer [sample_ticket 1 0] (LOAD_TICKETS [sample_ticket 1 7]))
       (LOAD_TICKETS [sample_ticket 1 7])
     = reducer [sample_ticket 1 0] (LOAD_TICKETS [sample_ticket 1 7])"
proof -
  have a: "0 < unreadMessages (sample_ticket 2 3) \<and>
           ticket_id (sample_ticket 2 3) \<notin> set (ids [sample_ticket 1 0])"
    by (simp add: sample_ticket_def ids_def)
  have b: "ticket_id (sample_ticket 1 7) \<in> set (ids [sample_ticket 1 0])"
    by (simp add: sample_ticket_def ids_def)
  from merge_twice[of "sample_ticket 2 3" "[sample_ticket 1 0]"] a
  have p: "reducer [sample_ticket 1 0] (LOAD_TICKETS [sample_ticket 2 3])
             = [sample_ticket 1 0] @ [sample_ticket 2 3]"
    "reducer (reducer [sample_ticket 1 0] (LOAD_TICKETS [sample_ticket 2 3]))
         (LOAD_TICKETS [sample_ticket 2 3])
       = [sample_ticket 2 3, sample_ticket 1 0]"
    by blast+
  from merge_twice[of "sample_ticket 1 7" "[sample_ticket 1 0]"] b
  have q: "reducer (reducer [sample_ticket 1 0] (LOAD_TICKETS [sample_ticket 1 7]))
         (LOAD_TICKETS [sample_ticket 1 7])
       = reducer [sample_ticket 1 0] (LOAD_TICKETS [sample_ticket 1 7])"
    by blast
  from p(1) have p1: "reducer [sample_ticket 1 0] (LOAD_TICKETS [sample_ticket 2 3])
             = [sample_ticket 1 0, sample_ticket 2 3]"
    by (simp only: append_Cons append_Nil)
  from p1 p(2) q show ?thesis by (intro conjI)
qed

subsection \<open>Order of unread tickets\<close>














section \<open>Properties of the socket handler and the filter effect\<close>



text \<open>
  C8 (reset). A \<^verbatim>\<open>"delete"\<close> event, whatever ticket it carries, and a filter change
  both run the reducer on \<^verbatim>\<open>RESET\<close>, and \<^verbatim>\<open>RESET\<close> gives the empty list from any
  list state.
\<close>

theorem reset_clears:
  "socket_on_ticket ctx \<lparr>ev_action = ''delete'', ev_ticket = tk\<rparr> state
     = Inr (reducer state RESET) \<and>
   ticketsList (on_filter_change c) = reducer (ticketsList c) RESET \<and>
   reducer state RESET = []"
  by (simp add: socket_on_ticket_def on_filter_change_def)


section \<open>Properties of the query service\<close>

subsection \<open>Pagination\<close>


text \<open>The table-backed data layer never answers with more rows than the limit.\<close>

lemma db_rows_le_limit:
  "db_findAndCountAll db q = Inr (cnt, rows) \<Longrightarrow> int (length rows) \<le> q_limit q"
  by (auto simp: db_findAndCountAll_def Let_def split: if_splits)






subsection \<open>The unread-only condition\<close>

text \<open>
  C5 (unread only). With \<^verbatim>\<open>withUnreadMessages\<close> equal to \<^verbatim>\<open>"true"\<close> and the user
  found, the condition that leaves this step does not depend on the condition that
  entered it (the status, search and date clauses composed before are gone): it has
  exactly the ownership alternative, the user's own queues or null, and
  \<open>unreadMessages > 0\<close>. A ticket matches it iff (it belongs to the operator or is
  pending) and (its queue is one of the operator's own or null) and it has unread
  messages. This is the condition of the query, up to the id key that the tag step
  adds afterwards when tags are given.
\<close>

theorem unread_only_condition:
  fixes env :: backend and r :: request and u :: user
  defines "U \<equiv> \<lparr>w_or = Some (OwnerOrPending (req_userId r)),
                 w_queueId = Some (map queue_id (queues u)),
                 w_status = None, w_createdAt = None, w_updatedAt = None,
                 w_unreadMessages_gt = Some 0, w_id_in = None\<rparr>"
  assumes unread: "req_withUnreadMessages r = Some ''true''"
    and usr: "ShowUserService env (req_userId r) = Inr u"
  shows "unread_where env r w = Inr U \<and>
         (matches srch U t \<longleftrightarrow>
            (userId t = Some (req_userId r) \<or> status t = ''pending'') \<and>
            (queueId t = None \<or> (\<exists>q. queueId t = Some q \<and> q \<in> queue_id ` set (queues u))) \<and>
            0 < unreadMessages t) \<and>
         (req_tags r = [] \<longrightarrow> (\<exists>q. build_query env r = Inr q \<and> q_where q = U)) \<and>
         (\<forall>q. build_query env r = Inr q \<longrightarrow> (q_where q)\<lparr>w_id_in := None\<rparr> = U)"
proof -
  have a: "unread_where env r w = Inr U" for w
    using unread usr by (simp add: unread_where_def U_def empty_where_def)
  have b: "matches srch U t \<longleftrightarrow>
            (userId t = Some (req_userId r) \<or> status t = ''pending'') \<and>
            (queueId t = None \<or> (\<exists>q. queueId t = Some q \<and> q \<in> queue_id ` set (queues u))) \<and>
            0 < unreadMessages t"
    by (auto simp: matches_def U_def split: option.splits)
  have c: "req_tags r = [] \<longrightarrow> (\<exists>q. build_query env r = Inr q \<and> q_where q = U)"
    by (simp add: build_query_def a tags_where_def Let_def)
  have d: "\<forall>q. build_query env r = Inr q \<longrightarrow> (q_where q)\<lparr>w_id_in := None\<rparr> = U"
    by (auto simp: build_query_def a tags_where_def Let_def U_def split: sum.splits if_splits)
  from a b c d show ?thesis by blast
qed

theorem unread_only_condition_witness:
  "unread_where sample_backend
      (sample_request\<lparr>req_withUnreadMessages := Some ''true'', req_status := Some ''open'',
         req_searchParam := Some ''ana'', req_date := Some ''2024-01-01''\<rparr>)
      (compose_where sample_backend
         (sample_request\<lparr>req_withUnreadMessages := Some ''true'', req_status := Some ''open'',
            req_searchParam := Some ''ana'', req_date := Some ''2024-01-01''\<rparr>))
     = Inr \<lparr>w_or = Some (OwnerOrPending 1), w_queueId = Some [4], w_status = None,
            w_createdAt = None, w_updatedAt = None, w_unreadMessages_gt = Some 0,
            w_id_in = None\<rparr> \<and>
   w_status (compose_where sample_backend
         (sample_request\<lparr>req_withUnreadMessages := Some ''true'', req_status := Some ''open'',
            req_searchParam := Some ''ana'', req_date := Some ''2024-01-01''\<rparr>)) = Some ''open'' \<and>
   w_or (compose_where sample_backend
         (sample_request\<lparr>req_withUnreadMessages := Some ''true'', req_status := Some ''open'',
            req_searchParam := Some ''ana'', req_date := Some ''2024-01-01''\<rparr>))
     = Some (SearchLike ''ana'')"
proof -
  let ?r = "sample_request\<lparr>req_withUnreadMessages := Some ''true'', req_status := Some ''open'',
         req_searchParam := Some ''ana'', req_date := Some ''2024-01-01''\<rparr>"
  have h1: "req_withUnreadMessages ?r = Some ''true''" by simp
  have h2: "ShowUserService sample_backend (req_userId ?r) = Inr sample_user"
    by (simp add: sample_backend_def sample_request_def)
  have c: "w_status (compose_where sample_backend ?r) = Some ''open''"
    "w_or (compose_where sample_backend ?r) = Some (SearchLike ''ana'')"
    by (simp_all add: compose_where_def sample_request_def truthy_def sample_backend_def
        Let_def)
  have v: "req_userId ?r = 1" "map queue_id (queues sample_user) = [4]"
    by (simp_all add: sample_request_def sample_user_def)
  from unread_only_condition[OF h1 h2, of "compose_where sample_backend ?r"]
  have "unread_where sample_backend ?r (compose_where sample_backend ?r)
     = Inr \<lparr>w_or = Some (OwnerOrPending (req_userId ?r)),
            w_queueId = Some (map queue_id (queues sample_user)), w_status = None,
            w_createdAt = None, w_updatedAt = None, w_unreadMessages_gt = Some 0,
            w_id_in = None\<rparr>"
    by blast
  with c show ?thesis unfolding v by blast
qed

subsection \<open>The tag filter\<close>

lemma set_intersection1: "set (intersection1 xs) = set xs"
  by (induction xs rule: intersection1.induct) auto

lemma distinct_intersection1: "distinct (intersection1 xs)"
  by (induction xs rule: intersection1.induct) (auto simp: set_intersection1)

lemma compose_where_no_id: "w_id_in (compose_where env r) = None"
  by (simp add: compose_where_def empty_where_def Let_def)

lemma unread_where_no_id:
  "unread_where env r (compose_where env r) = Inr w0 \<Longrightarrow> w_id_in w0 = None"
  by (auto simp: unread_where_def compose_where_no_id empty_where_def Let_def
      split: if_splits sum.splits)

text \<open>
  C6 (tag filter). With a non-empty tag list, on the table-backed data layer: the
  resolved id list \<open>R\<close> holds exactly the ticket ids that a tag row associates with any
  one of the given tags; the condition becomes the previous one with the id key set to
  \<open>R\<close>, which a ticket matches iff it matches the previous condition and its id is in
  \<open>R\<close>; every ticket of a returned page has its id in \<open>R\<close>; and when \<open>R\<close> is empty the
  page returned (for a page number of at least 1) is the empty page.
\<close>

theorem tag_filter:
  fixes db :: database and base :: backend and r :: request
  defines "env \<equiv> db_backend db base"
  assumes tags: "req_tags r \<noteq> []"
    and w0: "unread_where env r (compose_where env r) = Inr w0"
  shows "\<exists>R. set R = {i. \<exists>row \<in> set (db_ticket_tags db).
                        tt_ticketId row = i \<and> tt_tagId row \<in> set (req_tags r)} \<and>
             tags_where env r w0 = Inr (w0\<lparr>w_id_in := Some R\<rparr>) \<and>
             (\<forall>srch t. matches srch (w0\<lparr>w_id_in := Some R\<rparr>) t \<longleftrightarrow>
                          matches srch w0 t \<and> ticket_id t \<in> set R) \<and>
             (\<forall>sig resp. ListTicketsServiceInternal env r sig = Inr resp \<longrightarrow>
                (\<forall>t \<in> set (tickets resp).
                   ticket_id t \<in> set R \<and> matches (db_search db) w0 t)) \<and>
             (R = [] \<and> 1 \<le> page_of r \<and> sig \<noteq> Some True \<longrightarrow>
                ListTicketsServiceInternal env r sig =
                  Inr \<lparr>tickets = [], count = 0, hasMore = False\<rparr>)"
proof -
  define R where "R = intersection1 (map tt_ticketId
      (filter (\<lambda>row. tt_tagId row \<in> set (req_tags r)) (db_ticket_tags db)))"
  let ?w = "w0\<lparr>w_id_in := Some R\<rparr>"
  let ?q = "\<lparr>q_where = ?w, q_include_messages = include_messages env r,
             q_limit = 40, q_offset = 40 * (page_of r - 1)\<rparr>"
  have tw: "tags_where env r w0 = Inr ?w"
    using tags by (simp add: tags_where_def env_def db_backend_def db_findAll_def R_def)
  have sR: "set R = {i. \<exists>row \<in> set (db_ticket_tags db).
                        tt_ticketId row = i \<and> tt_tagId row \<in> set (req_tags r)}"
    by (auto simp: R_def set_intersection1)
  have m: "matches srch ?w t \<longleftrightarrow> matches srch w0 t \<and> ticket_id t \<in> set R" for srch t
    using unread_where_no_id[OF w0] by (auto simp: matches_def)
  have q: "build_query env r = Inr ?q"
    by (simp add: build_query_def w0 tw Let_def)
  have rows: "\<forall>t \<in> set (tickets resp). ticket_id t \<in> set R \<and> matches (db_search db) w0 t"
    if run: "ListTicketsServiceInternal env r sig = Inr resp" for sig resp
  proof -
    from run q obtain cnt rws where
      f: "db_findAndCountAll db ?q = Inr (cnt, rws)" and t: "tickets resp = rws"
      by (auto simp: ListTicketsServiceInternal_def env_def db_backend_def
          split: if_splits sum.splits)
    from f have "set rws \<subseteq> set (filter (matches (db_search db) ?w) (db_tickets db))"
      by (auto simp: db_findAndCountAll_def Let_def split: if_splits
          dest!: in_set_takeD in_set_dropD)
    with m t show ?thesis by auto
  qed
  have empty: "ListTicketsServiceInternal env r sig = Inr \<lparr>tickets = [], count = 0, hasMore = False\<rparr>"
    if "R = []" "1 \<le> page_of r" "sig \<noteq> Some True"
  proof -
    have "\<not> matches (db_search db) ?w t" for t
      using m[of "db_search db" t] that(1) by simp
    then have "filter (matches (db_search db) ?w) (db_tickets db) = []"
      by (simp add: filter_empty_conv)
    then have "db_findAndCountAll db ?q = Inr (0, [])"
      using that(2) by (simp add: db_findAndCountAll_def Let_def)
    then have "Ticket_findAndCountAll env ?q = Inr (0, [])"
      by (simp add: env_def db_backend_def)
    with q that(2,3) show ?thesis
      by (simp add: ListTicketsServiceInternal_def)
  qed
  from sR tw m rows empty show ?thesis
    by (intro exI[of _ R]) blast
qed

theorem tag_filter_witness:
  "tags_where (db_backend sample_database sample_backend)
      (sample_request\<lparr>req_tags := [1, 2]\<rparr>)
      (compose_where (db_backend sample_database sample_backend)
         (sample_request\<lparr>req_tags := [1, 2]\<rparr>))
     = Inr ((compose_where (db_backend sample_database sample_backend)
              (sample_request\<lparr>req_tags := [1, 2]\<rparr>))\<lparr>w_id_in := Some [5, 7]\<rparr>) \<and>
   set [5, 7] = {i. \<exists>row \<in> set (db_ticket_tags sample_database).
                     tt_ticketId row = i \<and> tt_tagId row \<in> set [1, 2]} \<and>
   ListTicketsServiceInternal (db_backend sample_database sample_backend)
      (sample_request\<lparr>req_tags := [8]\<rparr>) None
     = Inr \<lparr>tickets = [], count = 0, hasMore = False\<rparr>"
proof -
  let ?env = "db_backend sample_database sample_backend"
  let ?r = "sample_request\<lparr>req_tags := [1, 2]\<rparr>"
  let ?r' = "sample_request\<lparr>req_tags := [8]\<rparr>"
  have t: "req_tags ?r \<noteq> []" "req_tags ?r' \<noteq> []" by simp_all
  have u: "unread_where ?env ?r (compose_where ?env ?r) = Inr (compose_where ?env ?r)"
    "unread_where ?env ?r' (compose_where ?env ?r') = Inr (compose_where ?env ?r')"
    by (simp_all add: unread_where_def sample_request_def)
  have e: "tags_where ?env ?r (compose_where ?env ?r)
             = Inr ((compose_where ?env ?r)\<lparr>w_id_in := Some [5, 7]\<rparr>)"
    by (simp add: tags_where_def db_backend_def db_findAll_def sample_database_def)
  have e': "tags_where ?env ?r' (compose_where ?env ?r')
             = Inr ((compose_where ?env ?r')\<lparr>w_id_in := Some []\<rparr>)"
    by (simp add: tags_where_def db_backend_def db_findAll_def sample_database_def)
  have p: "1 \<le> page_of ?r'" "(None :: bool option) \<noteq> Some True"
    by (simp_all add: page_of_def sample_request_def)
  from tag_filter[OF t(1) u(1)] obtain R where
    R: "set R = {i. \<exists>row \<in> set (db_ticket_tags sample_database).
                     tt_ticketId row = i \<and> tt_tagId row \<in> set (req_tags ?r)}"
      "tags_where ?env ?r (compose_where ?env ?r)
         = Inr ((compose_where ?env ?r)\<lparr>w_id_in := Some R\<rparr>)"
    by blast
  from R(2) e have "w_id_in ((compose_where ?env ?r)\<lparr>w_id_in := Some R\<rparr>)
      = w_id_in ((compose_where ?env ?r)\<lparr>w_id_in := Some [5, 7]\<rparr>)"
    by simp
  then have "R = [5, 7]" by simp
  with R(1) have s: "set [5, 7] = {i. \<exists>row \<in> set (db_ticket_tags sample_database).
                     tt_ticketId row = i \<and> tt_tagId row \<in> set [1, 2]}"
    by simp
  from tag_filter[OF t(2) u(2), of None] obtain R' where
    R': "tags_where ?env ?r' (compose_where ?env ?r')
         = Inr ((compose_where ?env ?r')\<lparr>w_id_in := Some R'\<rparr>)"
      "R' = [] \<and> 1 \<le> page_of ?r' \<and> (None :: bool option) \<noteq> Some True \<longrightarrow>
         ListTicketsServiceInternal ?env ?r' None
           = Inr \<lparr>tickets = [], count = 0, hasMore = False\<rparr>"
    by blast
  from R'(1) e' have "w_id_in ((compose_where ?env ?r')\<lparr>w_id_in := Some R'\<rparr>)
      = w_id_in ((compose_where ?env ?r')\<lparr>w_id_in := Some []\<rparr>)"
    by simp
  then have "R' = []" by simp
  with R'(2) p have "ListTicketsServiceInternal ?env ?r' None
           = Inr \<lparr>tickets = [], count = 0, hasMore = False\<rparr>"
    by blast
  with e s show ?thesis by blast
qed

subsection \<open>Cancellation\<close>

text \<open>
  The signal is read once, on a controller that was created just before, and nowhere
  after: from any state whose controllers were allocated below \<open>next_controller\<close>, a
  call that is superseded while it awaits finds its signal aborted when it resumes and
  returns exactly what it returns when nothing supersedes it.
\<close>

lemma superseded_fetch_as_alone:
  assumes "\<forall>c \<in> set (aborted g). c < next_controller g"
    and "\<forall>c. currentAbortController g = Some c \<longrightarrow> c < next_controller g"
  shows "superseded_fetch env r g = (True, snd (ListTicketsService env r g))"
  using assms
  by (auto simp: superseded_fetch_def ListTicketsService_def service_enter_def
      service_leave_def Let_def split: option.splits)

text \<open>
  C1 (a superseded fetch resolves to the empty page), evaluated on the code. Call A is
  issued on a table of three tickets; call B is issued while A awaits the data layer
  and aborts A's controller. A's signal is then aborted, but A returns its full page
  of three tickets, not the empty page. And an aborted signal read at entry throws an
  error named \<^verbatim>\<open>Error\<close>, which the \<^verbatim>\<open>catch\<close> does not take for an
  \<^verbatim>\<open>AbortError\<close>: it is thrown on to the caller.
\<close>

theorem superseded_fetch_not_cancelled:
  "superseded_fetch (db_backend sample_database sample_backend) sample_request initial_abort_state
     = (True, Inr \<lparr>tickets = [sample_ticket 5 0, sample_ticket 7 2, sample_ticket 9 0],
                   count = 3, hasMore = False\<rparr>) \<and>
   snd (service_leave initial_abort_state
          (ListTicketsServiceInternal (db_backend sample_database sample_backend)
             sample_request (Some True)))
     = Inl (JsError ''Error'' ''Requisicao cancelada'')"
  by (simp add: superseded_fetch_def service_enter_def service_leave_def initial_abort_state_def
      ListTicketsServiceInternal_def build_query_def unread_where_def tags_where_def
      compose_where_def sample_request_def truthy_def include_messages_def page_of_def
      db_backend_def db_findAndCountAll_def sample_database_def matches_def empty_where_def
      sample_ticket_def error_name_def Let_def)

section \<open>Properties of the refresh-token service\<close>

text \<open>
  C10 (refresh token). The service returns tokens only if the token is present, verifies
  against the configured refresh secret, and the decoded token version equals the
  stored user's; whenever it does not return, it throws an \<open>AppError\<close> with status 401
  after clearing the \<^verbatim>\<open>jrt\<close> cookie, which is what happens on every input that
  fails one of these conditions. When the conditions hold and both tokens are created,
  it returns the user and the two new tokens and leaves the cookies alone.
\<close>

theorem refresh_token_outcomes:
  fixes env :: backend and r :: res and token :: "string option"
  defines "out \<equiv> RefreshTokenService env r token"
  shows "(\<forall>result. snd out = Inr result \<longrightarrow>
            (\<exists>tok decoded. token = Some tok \<and> tok \<noteq> [] \<and>
               verify env tok (refreshSecret env) = Inr decoded \<and>
               ShowUserService env (payload_id decoded) = Inr (rr_user result) \<and>
               tokenVersion (rr_user result) = payload_tokenVersion decoded \<and>
               createAccessToken env (rr_user result) = Inr (newToken result) \<and>
               createRefreshToken env (rr_user result) = Inr (refreshToken result))) \<and>
         (\<forall>e. snd out = Inl e \<longrightarrow>
            (\<exists>m. e = AppError m 401) \<and> ''jrt'' \<in> set (cleared_cookies (fst out))) \<and>
         (\<not> (\<exists>tok decoded u. token = Some tok \<and> tok \<noteq> [] \<and>
               verify env tok (refreshSecret env) = Inr decoded \<and>
               ShowUserService env (payload_id decoded) = Inr u \<and>
               tokenVersion u = payload_tokenVersion decoded) \<longrightarrow>
            (\<exists>m. snd out = Inl (AppError m 401)) \<and> ''jrt'' \<in> set (cleared_cookies (fst out))) \<and>
         (\<forall>tok decoded u a b. token = Some tok \<and> tok \<noteq> [] \<and>
               verify env tok (refreshSecret env) = Inr decoded \<and>
               ShowUserService env (payload_id decoded) = Inr u \<and>
               tokenVersion u = payload_tokenVersion decoded \<and>
               createAccessToken env u = Inr a \<and> createRefreshToken env u = Inr b \<longrightarrow>
            out = (r, Inr \<lparr>rr_user = u, newToken = a, refreshToken = b\<rparr>))"
proof -
  have succ: "\<exists>tok decoded. token = Some tok \<and> tok \<noteq> [] \<and>
               verify env tok (refreshSecret env) = Inr decoded \<and>
               ShowUserService env (payload_id decoded) = Inr (rr_user result) \<and>
               tokenVersion (rr_user result) = payload_tokenVersion decoded \<and>
               createAccessToken env (rr_user result) = Inr (newToken result) \<and>
               createRefreshToken env (rr_user result) = Inr (refreshToken result)"
    if "snd out = Inr result" for result
    using that unfolding out_def RefreshTokenService_def refresh_try_def truthy_def
    by (auto split: option.splits sum.splits if_splits prod.splits)
  have fail: "(\<exists>m. e = AppError m 401) \<and> ''jrt'' \<in> set (cleared_cookies (fst out))"
    if "snd out = Inl e" for e
    using that unfolding out_def RefreshTokenService_def truthy_def
    by (auto simp: clearCookie_def split: option.splits sum.splits if_splits prod.splits)
  have other: "(\<exists>m. snd out = Inl (AppError m 401)) \<and> ''jrt'' \<in> set (cleared_cookies (fst out))"
    if "\<not> (\<exists>tok decoded u. token = Some tok \<and> tok \<noteq> [] \<and>
               verify env tok (refreshSecret env) = Inr decoded \<and>
               ShowUserService env (payload_id decoded) = Inr u \<and>
               tokenVersion u = payload_tokenVersion decoded)"
  proof (cases "snd out")
    case (Inl e)
    with fail[OF Inl] show ?thesis by auto
  next
    case (Inr result)
    from succ[OF Inr] that show ?thesis by blast
  qed
  have conv: "out = (r, Inr \<lparr>rr_user = u, newToken = a, refreshToken = b\<rparr>)"
    if "token = Some tok \<and> tok \<noteq> [] \<and>
               verify env tok (refreshSecret env) = Inr decoded \<and>
               ShowUserService env (payload_id decoded) = Inr u \<and>
               tokenVersion u = payload_tokenVersion decoded \<and>
               createAccessToken env u = Inr a \<and> createRefreshToken env u = Inr b"
    for tok decoded u a b
    using that unfolding out_def RefreshTokenService_def refresh_try_def truthy_def
    by simp
  from succ fail other conv show ?thesis by blast
qed

theorem refresh_token_outcomes_witness:
  "RefreshTokenService sample_backend \<lparr>cleared_cookies = []\<rparr> (Some ''good'') =
     (\<lparr>cleared_cookies = []\<rparr>,
      Inr \<lparr>rr_user = sample_user, newToken = ''access'', refreshToken = ''refresh''\<rparr>) \<and>
   (\<exists>m. snd (RefreshTokenService sample_backend \<lparr>cleared_cookies = []\<rparr> (Some ''bad''))
          = Inl (AppError m 401)) \<and>
   ''jrt'' \<in> set (cleared_cookies
      (fst (RefreshTokenService sample_backend \<lparr>cleared_cookies = []\<rparr> (Some ''bad''))))"
proof -
  have good: "Some ''good'' = Some ''good'' \<and> ''good'' \<noteq> [] \<and>
      verify sample_backend ''good'' (refreshSecret sample_backend)
        = Inr \<lparr>payload_id = 1, payload_tokenVersion = 3\<rparr> \<and>
      ShowUserService sample_backend (payload_id \<lparr>payload_id = 1, payload_tokenVersion = 3\<rparr>)
        = Inr sample_user \<and>
      tokenVersion sample_user = payload_tokenVersion \<lparr>payload_id = 1, payload_tokenVersion = 3\<rparr> \<and>
      createAccessToken sample_backend sample_user = Inr ''access'' \<and>
      createRefreshToken sample_backend sample_user = Inr ''refresh''"
    by (simp add: sample_backend_def sample_user_def)
  have bad: "\<not> (\<exists>tok decoded u. Some ''bad'' = Some tok \<and> tok \<noteq> [] \<and>
               verify sample_backend tok (refreshSecret sample_backend) = Inr decoded \<and>
               ShowUserService sample_backend (payload_id decoded) = Inr u \<and>
               tokenVersion u = payload_tokenVersion decoded)"
    by (simp add: sample_backend_def)
  from refresh_token_outcomes[of sample_backend "\<lparr>cleared_cookies = []\<rparr>" "Some ''good''"] good
  have g: "RefreshTokenService sample_backend \<lparr>cleared_cookies = []\<rparr> (Some ''good'') =
     (\<lparr>cleared_cookies = []\<rparr>,
      Inr \<lparr>rr_user = sample_user, newToken = ''access'', refreshToken = ''refresh''\<rparr>)"
    by blast
  from refresh_token_outcomes[of sample_backend "\<lparr>cleared_cookies = []\<rparr>" "Some ''bad''"] bad
  have b: "(\<exists>m. snd (RefreshTokenService sample_backend \<lparr>cleared_cookies = []\<rparr> (Some ''bad''))
          = Inl (AppError m 401)) \<and>
   ''jrt'' \<in> set (cleared_cookies
      (fst (RefreshTokenService sample_backend \<lparr>cleared_cookies = []\<rparr> (Some ''bad''))))"
    by blast
  from g b show ?thesis by blast
qed

end
